theory Spec2Isabelle
  imports Main "HOL-Library.Word" "HOL-Library.AList"
begin

unbundle bit_operations_syntax

section \<open>The memory definitions of the renderer core (MemDef.h)\<close>

text \<open>
  MemDef.h binds one backend allocation policy to the name \<open>CategorisedAllocPolicy\<close>,
  gives the array construction helper \<open>ConstructN\<close>, and defines the allocation macros
  twice: once for builds with \<open>CC_MEMORY_TRACKER\<close> (every allocation passes its call
  site) and once for builds without.

  The macros are modelled as functions on a \<open>world\<close>: the sequence of calls made so far
  (constructors, destructors and the static functions of the policy), and the state
  behind the policy. A macro named \<open>_CC_X\<close> in the header is \<open>CC_X\<close> here. The build
  flag \<open>CC_MEMORY_TRACKER\<close> is the boolean \<open>tracker\<close>; \<open>__FILE__\<close>, \<open>__LINE__\<close> and
  \<open>__FUNCTION__\<close> at the place of expansion are the call site \<open>here\<close>; \<open>sizeof(T)\<close>
  is the parameter \<open>sizeof_T\<close>.

  A macro is text. Where the header pastes a parameter into a place in which the text of
  the argument can combine with the text around it (after a cast without parentheses,
  or inside the loop that declares \<open>b\<close>), the argument is an expression and the model
  evaluates the expansion as C++ parses it. Where the parameter is an argument of a
  function call or is in parentheses, and no name is declared around it, the value of
  the argument is all that matters, and the model takes the value.
\<close>

subsection \<open>Machine types\<close>

text \<open>\<open>size_t\<close> and pointers are 64-bit values; the null pointer is \<open>0\<close>.\<close>

type_synonym size_t = "64 word"
type_synonym ptr = "64 word"

record call_site =
  site_file :: string
  site_line :: int
  site_function :: string

subsection \<open>Selection of the backend policy (lines 11 to 40)\<close>

datatype backend_policy = StdAllocPolicy | NedPoolingAllocPolicy | JeAllocPolicy

text \<open>
  The \<open>#if\<close> chain on \<open>CC_MEMORY_ALLOCATOR\<close>. The three constants it is compared with
  are defined outside this header and are parameters. The preprocessor computes in
  \<open>intmax_t\<close> and \<open>uintmax_t\<close>; whatever the signedness of the two sides, \<open>==\<close> holds
  exactly when their 64-bit patterns are the same, so the values are 64-bit words.
  When no branch is taken the class is not declared at all: \<open>None\<close>.
\<close>

definition CategorisedAllocPolicy ::
    "64 word \<Rightarrow> 64 word \<Rightarrow> 64 word \<Rightarrow> 64 word \<Rightarrow> backend_policy option" where
  "CategorisedAllocPolicy CC_MEMORY_ALLOCATOR_STD CC_MEMORY_ALLOCATOR_NEDPOOLING
     CC_MEMORY_ALLOCATOR_JEMALLOC CC_MEMORY_ALLOCATOR =
   (if CC_MEMORY_ALLOCATOR = CC_MEMORY_ALLOCATOR_STD then Some StdAllocPolicy
    else if CC_MEMORY_ALLOCATOR = CC_MEMORY_ALLOCATOR_NEDPOOLING then Some NedPoolingAllocPolicy
    else if CC_MEMORY_ALLOCATOR = CC_MEMORY_ALLOCATOR_JEMALLOC then Some JeAllocPolicy
    else None)"

text \<open>The two shortcuts, \<open>typedef CategorisedAllocPolicy GAP\<close> and \<open>... STLAP\<close>.\<close>

datatype shortcut = GAP | STLAP

fun shortcut_policy ::
    "64 word \<Rightarrow> 64 word \<Rightarrow> 64 word \<Rightarrow> 64 word \<Rightarrow> shortcut \<Rightarrow> backend_policy option" where
  "shortcut_policy s n j a GAP = CategorisedAllocPolicy s n j a"
| "shortcut_policy s n j a STLAP = CategorisedAllocPolicy s n j a"

subsection \<open>Calls and the world\<close>

text \<open>
  What a run does, in order. \<open>PlacementNew p i\<close> is \<open>new ((void*)(p+i)) T()\<close>,
  \<open>Destroy p i\<close> is \<open>(p)[i].~T()\<close> (and \<open>(p)->~T()\<close> for \<open>i = 0\<close>). The other events are
  calls of the static functions of \<open>::cc::CategorisedAllocPolicy\<close> with their arguments;
  the call site is \<open>None\<close> for the overload without file, line and function.
\<close>

datatype event =
    PlacementNew ptr size_t
  | Destroy ptr size_t
  | Call_AllocateBytes size_t "call_site option"
  | Call_ReallocateBytes ptr size_t "call_site option"
  | Call_DeallocateBytes ptr
  | Call_AllocateBytesAligned size_t size_t "call_site option"
  | Call_DeallocateBytesAligned ptr

text \<open>
  Modelled from the spec: the AllocationRecord of the debug tracking (its declaration
  is in the absent policy headers): size, alignment (\<open>None\<close> for the natural one) and
  call site. The pointer is the key of the row in the table, and a record is live as
  long as it is in the table.
\<close>

record allocation_record =
  rec_size :: size_t
  rec_align :: "size_t option"
  rec_site :: call_site

text \<open>
  \<^item> \<open>log\<close>: the events so far, oldest first;
  \<^item> \<open>platform\<close>: the addresses the platform allocator will answer to the coming
    requests, in order (\<open>0\<close> when it will refuse one). The platform allocator is an
    external collaborator: its answers are inputs of the model;
  \<^item> \<open>origin\<close>: the bookkeeping of the aligned layer, from each aligned pointer handed
    out to the unaligned pointer of its block;
  \<^item> \<open>records\<close>: the table of the debug tracking.
\<close>

record world =
  log :: "event list"
  platform :: "ptr list"
  origin :: "(ptr \<times> ptr) list"
  records :: "(ptr \<times> allocation_record) list"

definition emit :: "event \<Rightarrow> world \<Rightarrow> world" where
  "emit e w = w\<lparr>log := log w @ [e]\<rparr>"

text \<open>
  What stops a use of a macro short of its end: the expansion does not compile
  (\<open>Ill_formed\<close>), or the debug tracking fails loudly on a release, of a pointer that has
  no record (a double free) or of one that was allocated by the other kind of
  allocation.
\<close>

datatype fault =
    Ill_formed
  | Release_without_record ptr
  | Release_of_other_class ptr

subsection \<open>ConstructN (lines 53 to 59)\<close>

text \<open>
  \<open>for (size_t i = 0; i < count; ++i) new ((void*)(basePtr+i)) T();\<close> as a recursion on
  the loop variable. The default constructor of \<open>T\<close> is outside the header; the model
  records that it runs.
\<close>

function ConstructN_loop :: "ptr \<Rightarrow> size_t \<Rightarrow> size_t \<Rightarrow> world \<Rightarrow> world" where
  "ConstructN_loop basePtr count i w =
     (if i < count then ConstructN_loop basePtr count (i + 1) (emit (PlacementNew basePtr i) w)
      else w)"
  by pat_completeness auto
termination
proof (relation "measure (\<lambda>(basePtr, count, i, w). unat count - unat i)")
  show "wf (measure (\<lambda>(basePtr, count, i, w). unat count - unat i))"
    by simp
next
  fix basePtr :: ptr and count i :: size_t and w :: world
  assume "i < count"
  then have "unat i < unat count" and "unat (i + 1) = unat i + 1"
    by unat_arith+
  then show "((basePtr, count, i + 1, emit (PlacementNew basePtr i) w), (basePtr, count, i, w))
      \<in> measure (\<lambda>(basePtr, count, i, w). unat count - unat i)"
    by simp
qed

declare ConstructN_loop.simps [simp del]

definition ConstructN :: "ptr \<Rightarrow> size_t \<Rightarrow> world \<Rightarrow> ptr \<times> world" where
  "ConstructN basePtr count w = (basePtr, ConstructN_loop basePtr count 0 w)"

subsection \<open>The static functions of the policy\<close>

text \<open>
  MemDef.h includes StdAlloc.h, NedPooling.h and JeAlloc.h, where the policy classes
  declare \<open>AllocateBytes\<close>, \<open>ReallocateBytes\<close>, \<open>DeallocateBytes\<close>,
  \<open>AllocateBytesAligned\<close> and \<open>DeallocateBytesAligned\<close>. These three headers are not
  among the sources at hand, so the five functions and what is behind them follow the
  specification (sections 3, 4.1, 4.2, 4.3 and 7). Every one of these definitions
  appends the call it models to the log first.
\<close>

text \<open>
  Modelled from the spec: the platform allocator behind the policy (absent, an external
  collaborator). A request is answered with a pointer or fails; failure is the null
  pointer, and it also fails when no answer is left.
\<close>

definition platform_answer :: "world \<Rightarrow> ptr \<times> world" where
  "platform_answer w =
     (case platform w of [] \<Rightarrow> (0, w) | p # rest \<Rightarrow> (p, w\<lparr>platform := rest\<rparr>))"

text \<open>
  Modelled from the spec: the debug tracking of the policy headers (absent). With a call
  site, an allocation inserts the record of the pointer handed out, keyed by the pointer;
  the overload without call site records nothing.
\<close>

definition track :: "ptr \<Rightarrow> size_t \<Rightarrow> size_t option \<Rightarrow> call_site option \<Rightarrow> world \<Rightarrow> world" where
  "track p bytes align site w =
     (case site of
        None \<Rightarrow> w
      | Some s \<Rightarrow> w\<lparr>records := AList.update p
            \<lparr>rec_size = bytes, rec_align = align, rec_site = s\<rparr> (records w)\<rparr>)"

text \<open>
  Modelled from the spec: the debug tracking of the policy headers (absent), at a
  release. A build without tracking has no table and checks nothing. A build with
  tracking looks for the record of the pointer before it erases it: when there is none
  (a double free, or a pointer never allocated) it fails loudly, and so it does when
  the record is of the other kind of allocation (\<open>aligned\<close> tells the kind of the
  release; the alignment of the record tells the kind of the allocation).
\<close>

definition untrack :: "bool \<Rightarrow> bool \<Rightarrow> ptr \<Rightarrow> world \<Rightarrow> fault + world" where
  "untrack tracker aligned p w =
     (if \<not> tracker then Inr w
      else case map_of (records w) p of
             None \<Rightarrow> Inl (Release_without_record p)
           | Some r \<Rightarrow>
               if (rec_align r \<noteq> None) = aligned
               then Inr (w\<lparr>records := AList.delete p (records w)\<rparr>)
               else Inl (Release_of_other_class p))"

text \<open>
  Modelled from the spec: \<open>AllocateBytes\<close> of the policy headers (absent),
  \<open>allocate(size) -> ptr | failure\<close>.
\<close>

definition AllocateBytes :: "size_t \<Rightarrow> call_site option \<Rightarrow> world \<Rightarrow> ptr \<times> world" where
  "AllocateBytes bytes site w =
     (let (p, w1) = platform_answer (emit (Call_AllocateBytes bytes site) w)
      in if p = 0 then (0, w1) else (p, track p bytes None site w1))"


text \<open>
  Modelled from the spec: \<open>DeallocateBytes\<close> of the policy headers (absent),
  \<open>deallocate(ptr)\<close>, which does nothing on the null pointer. In a build with tracking
  it fails loudly when the pointer has no record or was allocated aligned.
\<close>

definition DeallocateBytes :: "bool \<Rightarrow> ptr \<Rightarrow> world \<Rightarrow> fault + world" where
  "DeallocateBytes tracker p w =
     (let w1 = emit (Call_DeallocateBytes p) w
      in if p = 0 then Inr w1 else untrack tracker False p w1)"

text \<open>
  Modelled from the spec: the alignments that the contract of the aligned layer covers,
  the powers of two.
\<close>

definition power_of_two :: "size_t \<Rightarrow> bool" where
  "power_of_two a = (a \<noteq> 0 \<and> a AND (a - 1) = 0)"

text \<open>
  Modelled from the spec: the address the aligned layer (absent) hands out for a block at
  \<open>raw\<close>, the next multiple of the alignment after \<open>raw\<close>; the offset from \<open>raw\<close> is
  between 1 and the alignment.
\<close>

definition align_up :: "ptr \<Rightarrow> size_t \<Rightarrow> ptr" where
  "align_up raw align = raw + (align - raw mod align)"

text \<open>
  Modelled from the spec: \<open>AllocateBytesAligned\<close> of the policy headers (absent),
  \<open>allocateAligned(align, size) -> ptr | failure\<close>. It keeps the original unaligned
  pointer to recover the block at release. An alignment that is not a power of two is
  outside the contract, and the model refuses it.
\<close>

definition AllocateBytesAligned :: "size_t \<Rightarrow> size_t \<Rightarrow> call_site option \<Rightarrow> world \<Rightarrow> ptr \<times> world" where
  "AllocateBytesAligned align bytes site w =
     (let w0 = emit (Call_AllocateBytesAligned align bytes site) w
      in if \<not> power_of_two align then (0, w0)
         else let (raw, w1) = platform_answer w0
              in if raw = 0 then (0, w1)
                 else let p = align_up raw align
                      in (p, track p bytes (Some align) site
                               (w1\<lparr>origin := AList.update p raw (origin w1)\<rparr>)))"

text \<open>
  Modelled from the spec: \<open>DeallocateBytesAligned\<close> of the policy headers (absent),
  \<open>deallocateAligned(ptr)\<close>: the block of the pointer is recovered and its bookkeeping
  dropped. In a build with tracking it fails loudly when the pointer has no record or
  was not allocated aligned.
\<close>

definition DeallocateBytesAligned :: "bool \<Rightarrow> ptr \<Rightarrow> world \<Rightarrow> fault + world" where
  "DeallocateBytesAligned tracker p w =
     (let w1 = emit (Call_DeallocateBytesAligned p) w
      in untrack tracker True p (w1\<lparr>origin := AList.delete p (origin w1)\<rparr>))"

subsection \<open>Arguments of macros\<close>

text \<open>
  The expressions that the model takes as arguments of a macro: literals, names,
  parentheses, casts to \<open>size_t\<close> and to \<open>void*\<close>, and four binary operators, one for each
  way an operator can relate to a cast and to \<open><\<close>: \<open>*\<close> and \<open>+\<close> bind tighter than \<open><\<close>,
  \<open><\<close> itself, and \<open>&\<close>, which binds looser. All of them are left-associative and bind
  looser than a cast. A tree is an expression as C++ parses it; an operand that is
  itself of a looser operator is in \<open>Parens\<close>, as it is in the text. The expressions
  have no side effects, so that it does not matter how often an expansion evaluates
  its argument.
\<close>

datatype ctype = To_size_t | To_void_ptr

datatype binop = Times | Plus | Less | Bitand

datatype cexpr =
    Literal size_t
  | Ident string
  | Parens cexpr
  | Cast ctype cexpr
  | Binary binop cexpr cexpr

text \<open>
  Values are of type \<open>size_t\<close>, \<open>T*\<close> (for the \<open>T\<close> given to the macro) or \<open>void*\<close>. A
  scope gives the variables that are declared where the text stands.
\<close>

datatype cval = Integer size_t | Pointer_to_T ptr | Pointer_to_void ptr

type_synonym scope = "string \<Rightarrow> cval option"

fun address :: "cval \<Rightarrow> ptr option" where
  "address (Integer n) = None"
| "address (Pointer_to_T p) = Some p"
| "address (Pointer_to_void p) = Some p"

text \<open>
  The operators. Adding \<open>n\<close> to a \<open>T*\<close> moves it by \<open>n\<close> elements; adding to a \<open>void*\<close>
  moves it by \<open>n\<close> bytes, as GNU C++ does (ISO C++ has no arithmetic on \<open>void*\<close>, and a
  compiler that follows it refuses the expression). \<open>None\<close>: the operands do not have
  types that the operator takes.
\<close>

fun apply_binop :: "size_t \<Rightarrow> binop \<Rightarrow> cval \<Rightarrow> cval \<Rightarrow> cval option" where
  "apply_binop sizeof_T Times (Integer x) (Integer y) = Some (Integer (x * y))"
| "apply_binop sizeof_T Plus (Integer x) (Integer y) = Some (Integer (x + y))"
| "apply_binop sizeof_T Plus (Pointer_to_T p) (Integer n) = Some (Pointer_to_T (p + n * sizeof_T))"
| "apply_binop sizeof_T Plus (Integer n) (Pointer_to_T p) = Some (Pointer_to_T (p + n * sizeof_T))"
| "apply_binop sizeof_T Plus (Pointer_to_void p) (Integer n) = Some (Pointer_to_void (p + n))"
| "apply_binop sizeof_T Plus (Integer n) (Pointer_to_void p) = Some (Pointer_to_void (p + n))"
| "apply_binop sizeof_T Less (Integer x) (Integer y) = Some (Integer (if x < y then 1 else 0))"
| "apply_binop sizeof_T Less (Integer x) b = None"
| "apply_binop sizeof_T Less a (Integer y) = None"
| "apply_binop sizeof_T Less a b =
     (case (address a, address b) of
        (Some p, Some q) \<Rightarrow> Some (Integer (if p < q then 1 else 0))
      | _ \<Rightarrow> None)"
| "apply_binop sizeof_T Bitand (Integer x) (Integer y) = Some (Integer (x AND y))"
| "apply_binop sizeof_T op a b = None"

fun cast_to :: "ctype \<Rightarrow> cval \<Rightarrow> cval" where
  "cast_to To_size_t (Integer n) = Integer n"
| "cast_to To_size_t (Pointer_to_T p) = Integer p"
| "cast_to To_size_t (Pointer_to_void p) = Integer p"
| "cast_to To_void_ptr (Integer n) = Pointer_to_void n"
| "cast_to To_void_ptr (Pointer_to_T p) = Pointer_to_void p"
| "cast_to To_void_ptr (Pointer_to_void p) = Pointer_to_void p"

fun value_of :: "size_t \<Rightarrow> scope \<Rightarrow> cexpr \<Rightarrow> cval option" where
  "value_of sizeof_T scope (Literal n) = Some (Integer n)"
| "value_of sizeof_T scope (Ident x) = scope x"
| "value_of sizeof_T scope (Parens e) = value_of sizeof_T scope e"
| "value_of sizeof_T scope (Cast t e) = map_option (cast_to t) (value_of sizeof_T scope e)"
| "value_of sizeof_T scope (Binary op l r) =
     (case value_of sizeof_T scope l of
        None \<Rightarrow> None
      | Some a \<Rightarrow>
          (case value_of sizeof_T scope r of
             None \<Rightarrow> None
           | Some b \<Rightarrow> apply_binop sizeof_T op a b))"

text \<open>
  \<open>cast_paste t e\<close> is the text \<open>(t)e\<close> as it parses: a cast binds tighter than every
  binary operator, so it takes the first operand of \<open>e\<close> only.
\<close>

fun cast_paste :: "ctype \<Rightarrow> cexpr \<Rightarrow> cexpr" where
  "cast_paste t (Binary op l r) = Binary op (cast_paste t l) r"
| "cast_paste t e = Cast t e"

text \<open>
  \<open>less_paste a e\<close> is the text \<open>a < e\<close> as it parses, for a name \<open>a\<close>: \<open>e\<close> is the right
  operand as a whole when its operator binds tighter than \<open><\<close>; otherwise \<open>a <\<close> goes
  with the first operand of \<open>e\<close>.
\<close>

fun less_paste :: "cexpr \<Rightarrow> cexpr \<Rightarrow> cexpr" where
  "less_paste a (Binary Less l r) = Binary Less (less_paste a l) r"
| "less_paste a (Binary Bitand l r) = Binary Bitand (less_paste a l) r"
| "less_paste a e = Binary Less a e"

text \<open>A condition holds when its value is not zero or not null.\<close>

fun truth :: "cval \<Rightarrow> bool" where
  "truth (Integer n) = (n \<noteq> 0)"
| "truth (Pointer_to_T p) = (p \<noteq> 0)"
| "truth (Pointer_to_void p) = (p \<noteq> 0)"

text \<open>
  What a function with a parameter of type \<open>void*\<close> receives: a pointer converts, an
  integer does not.
\<close>

fun pointer_argument :: "cval option \<Rightarrow> ptr option" where
  "pointer_argument (Some c) = address c"
| "pointer_argument None = None"

text \<open>
  The literal \<open>0\<close>, also in parentheses, is a null pointer constant: it converts to a
  pointer where a pointer is asked for.
\<close>

fun null_pointer_constant :: "cexpr \<Rightarrow> bool" where
  "null_pointer_constant (Literal n) = (n = 0)"
| "null_pointer_constant (Parens e) = null_pointer_constant e"
| "null_pointer_constant e = False"

text \<open>What \<open>->~T()\<close> and \<open>[b].~T()\<close> need on their left: a \<open>T*\<close>.\<close>

fun T_pointer :: "cval option \<Rightarrow> ptr option" where
  "T_pointer (Some (Pointer_to_T p)) = Some p"
| "T_pointer c = None"

subsection \<open>The macros (lines 63 to 175)\<close>

text \<open>
  Each macro is given once, with the branch of \<open>#ifdef CC_MEMORY_TRACKER\<close> chosen by
  \<open>tracker\<close>; where the two branches have the same text, the flag only reaches the
  policy, which is compiled under the same flag.

  The allocation macros paste their parameters as arguments of a function call or in
  parentheses (\<open>sizeof(T)*(count)\<close>) and declare no name: they take values.
  \<open>static_cast<T*>\<close> does not change the pointer.
\<close>

definition CC_MALLOC :: "bool \<Rightarrow> call_site \<Rightarrow> size_t \<Rightarrow> world \<Rightarrow> ptr \<times> world" where
  "CC_MALLOC tracker here bytes =
     (if tracker then AllocateBytes bytes (Some here) else AllocateBytes bytes None)"



definition CC_MALLOC_ALIGN :: "bool \<Rightarrow> call_site \<Rightarrow> size_t \<Rightarrow> size_t \<Rightarrow> world \<Rightarrow> ptr \<times> world" where
  "CC_MALLOC_ALIGN tracker here bytes align =
     (if tracker then AllocateBytesAligned align bytes (Some here)
      else AllocateBytesAligned align bytes None)"

definition CC_ALLOC_T_ALIGN ::
    "bool \<Rightarrow> call_site \<Rightarrow> size_t \<Rightarrow> size_t \<Rightarrow> size_t \<Rightarrow> world \<Rightarrow> ptr \<times> world" where
  "CC_ALLOC_T_ALIGN tracker here sizeof_T count align =
     (if tracker then AllocateBytesAligned align (sizeof_T * count) (Some here)
      else AllocateBytesAligned align (sizeof_T * count) None)"

text \<open>
  \<open>_CC_FREE(ptr)\<close> is \<open>DeallocateBytes((void*)ptr)\<close> in both builds, with \<open>ptr\<close> pasted
  after the cast without parentheses.
\<close>

definition CC_FREE :: "bool \<Rightarrow> size_t \<Rightarrow> cexpr \<Rightarrow> scope \<Rightarrow> world \<Rightarrow> fault + world" where
  "CC_FREE tracker sizeof_T ptr scope w =
     (case pointer_argument (value_of sizeof_T scope (cast_paste To_void_ptr ptr)) of
        None \<Rightarrow> Inl Ill_formed
      | Some q \<Rightarrow> DeallocateBytes tracker q w)"

text \<open>
  \<open>_CC_DELETE_T(ptr, T)\<close> is
  \<open>if(ptr){(ptr)->~T(); DeallocateBytes((void*)ptr);}\<close> in both builds. It compiles
  when \<open>(ptr)\<close> is a \<open>T*\<close> and \<open>(void*)ptr\<close> a pointer.
\<close>

definition CC_DELETE_T :: "bool \<Rightarrow> size_t \<Rightarrow> cexpr \<Rightarrow> scope \<Rightarrow> world \<Rightarrow> fault + world" where
  "CC_DELETE_T tracker sizeof_T ptr scope w =
     (case (T_pointer (value_of sizeof_T scope (Parens ptr)),
            pointer_argument (value_of sizeof_T scope (cast_paste To_void_ptr ptr))) of
        (Some p, Some q) \<Rightarrow>
          if p \<noteq> 0 then DeallocateBytes tracker q (emit (Destroy p 0) w) else Inr w
      | _ \<Rightarrow> Inl Ill_formed)"

text \<open>
  The loop of \<open>_CC_DELETE_ARRAY_T(ptr, T, count)\<close>,
  \<open>for (size_t b = 0; b < (size_t)count; ++b) {(ptr)[b].~T();}\<close>, from the value \<open>b\<close> of
  its variable on. The condition and the body are evaluated where the variable \<open>b\<close> of
  the loop is declared, so a \<open>b\<close> in \<open>ptr\<close> or in \<open>count\<close> is this variable; \<open>count\<close> is
  pasted after the cast and after \<open><\<close> without parentheses. \<open>++b\<close> wraps around. The loop
  need not end (take \<open>1 < 2\<close> for \<open>count\<close>): \<open>None\<close> is a loop that runs forever.
\<close>

partial_function (option) DELETE_ARRAY_loop ::
    "size_t \<Rightarrow> cexpr \<Rightarrow> cexpr \<Rightarrow> scope \<Rightarrow> size_t \<Rightarrow> world \<Rightarrow> (fault + world) option" where
  "DELETE_ARRAY_loop sizeof_T ptr count scope b w =
     (case value_of sizeof_T (scope(''b'' \<mapsto> Integer b))
             (less_paste (Ident ''b'') (cast_paste To_size_t count)) of
        None \<Rightarrow> Some (Inl Ill_formed)
      | Some c \<Rightarrow>
          if truth c then
            (case T_pointer (value_of sizeof_T (scope(''b'' \<mapsto> Integer b)) (Parens ptr)) of
               None \<Rightarrow> Some (Inl Ill_formed)
             | Some p \<Rightarrow>
                 DELETE_ARRAY_loop sizeof_T ptr count scope (b + 1) (emit (Destroy p b) w))
          else Some (Inr w))"

text \<open>
  \<open>_CC_DELETE_ARRAY_T(ptr, T, count)\<close> is
  \<open>if(ptr){for (...) {(ptr)[b].~T();} DeallocateBytes((void*)ptr);}\<close> in both builds. It
  compiles when \<open>(ptr)\<close> is a condition, the condition of the loop has a value and
  \<open>(ptr)\<close> is a \<open>T*\<close> where \<open>b\<close> is the variable of the loop, and \<open>(void*)ptr\<close> is a
  pointer.
\<close>

definition CC_DELETE_ARRAY_T ::
    "bool \<Rightarrow> size_t \<Rightarrow> cexpr \<Rightarrow> cexpr \<Rightarrow> scope \<Rightarrow> world \<Rightarrow> (fault + world) option" where
  "CC_DELETE_ARRAY_T tracker sizeof_T ptr count scope w =
     (case (value_of sizeof_T scope (Parens ptr),
            value_of sizeof_T (scope(''b'' \<mapsto> Integer 0))
              (less_paste (Ident ''b'') (cast_paste To_size_t count)),
            T_pointer (value_of sizeof_T (scope(''b'' \<mapsto> Integer 0)) (Parens ptr)),
            pointer_argument (value_of sizeof_T scope (cast_paste To_void_ptr ptr))) of
        (Some c, Some l, Some e, Some q) \<Rightarrow>
          if truth c then
            (case DELETE_ARRAY_loop sizeof_T ptr count scope 0 w of
               None \<Rightarrow> None
             | Some (Inl f) \<Rightarrow> Some (Inl f)
             | Some (Inr w1) \<Rightarrow> Some (DeallocateBytes tracker q w1))
          else Some (Inr w)
      | _ \<Rightarrow> Some (Inl Ill_formed))"

text \<open>
  \<open>_CC_FREE_ALIGN(ptr, align)\<close> is \<open>DeallocateBytesAligned(ptr)\<close> in a build with tracking
  (line 89) and \<open>DeallocateBytesAligned((void*)ptr)\<close> in a build without (line 146).
  \<open>align\<close> does not occur in the expansion. \<open>FREE_ALIGN_argument\<close> is the pointer that
  the function receives: in the first build the argument converted to \<open>void*\<close>, in the
  second the value of the cast as it parses.
\<close>

definition FREE_ALIGN_argument :: "bool \<Rightarrow> size_t \<Rightarrow> cexpr \<Rightarrow> scope \<Rightarrow> ptr option" where
  "FREE_ALIGN_argument tracker sizeof_T ptr scope =
     (if tracker then
        (if null_pointer_constant ptr then Some 0
         else pointer_argument (value_of sizeof_T scope ptr))
      else pointer_argument (value_of sizeof_T scope (cast_paste To_void_ptr ptr)))"

definition CC_FREE_ALIGN ::
    "bool \<Rightarrow> size_t \<Rightarrow> cexpr \<Rightarrow> size_t \<Rightarrow> scope \<Rightarrow> world \<Rightarrow> fault + world" where
  "CC_FREE_ALIGN tracker sizeof_T ptr align scope w =
     (case FREE_ALIGN_argument tracker sizeof_T ptr scope of
        None \<Rightarrow> Inl Ill_formed
      | Some q \<Rightarrow> DeallocateBytesAligned tracker q w)"

text \<open>
  The SIMD macros. \<open>CC_SIMD_ALIGNMENT\<close> is defined outside this header and is a
  parameter.
\<close>

definition CC_MALLOC_SIMD :: "size_t \<Rightarrow> bool \<Rightarrow> call_site \<Rightarrow> size_t \<Rightarrow> world \<Rightarrow> ptr \<times> world" where
  "CC_MALLOC_SIMD CC_SIMD_ALIGNMENT tracker here bytes =
     CC_MALLOC_ALIGN tracker here bytes CC_SIMD_ALIGNMENT"

definition CC_ALLOC_T_SIMD ::
    "size_t \<Rightarrow> bool \<Rightarrow> call_site \<Rightarrow> size_t \<Rightarrow> size_t \<Rightarrow> world \<Rightarrow> ptr \<times> world" where
  "CC_ALLOC_T_SIMD CC_SIMD_ALIGNMENT tracker here sizeof_T count =
     CC_ALLOC_T_ALIGN tracker here sizeof_T count CC_SIMD_ALIGNMENT"

definition CC_FREE_SIMD ::
    "size_t \<Rightarrow> bool \<Rightarrow> size_t \<Rightarrow> cexpr \<Rightarrow> scope \<Rightarrow> world \<Rightarrow> fault + world" where
  "CC_FREE_SIMD CC_SIMD_ALIGNMENT tracker sizeof_T ptr =
     CC_FREE_ALIGN tracker sizeof_T ptr CC_SIMD_ALIGNMENT"

subsection \<open>Comparing the two builds\<close>

text \<open>
  \<open>strip_site\<close> forgets the call site of a call of the policy: what is left is the
  function called and its size, alignment and pointer arguments.
\<close>

fun strip_site :: "event \<Rightarrow> event" where
  "strip_site (Call_AllocateBytes bytes site) = Call_AllocateBytes bytes None"
| "strip_site (Call_ReallocateBytes p bytes site) = Call_ReallocateBytes p bytes None"
| "strip_site (Call_AllocateBytesAligned align bytes site) = Call_AllocateBytesAligned align bytes None"
| "strip_site e = e"

text \<open>
  Two worlds are the same up to tracking when they made the same calls up to call
  sites, the platform allocator will answer the same, and the aligned layer keeps the
  same blocks. The tracking table is left out.
\<close>

definition same_backend :: "world \<Rightarrow> world \<Rightarrow> bool" where
  "same_backend w w' =
     (map strip_site (log w) = map strip_site (log w') \<and>
      platform w = platform w' \<and> origin w = origin w')"




subsection \<open>Runs of a build with tracking\<close>

text \<open>
  A run is a list of uses of the allocation and release macros in a build with
  \<open>CC_MEMORY_TRACKER\<close>, each allocation with the call site it is at. A release is the
  macro on a variable \<open>ptr\<close> of type \<open>T*\<close> that holds the pointer; the size of \<open>T\<close> plays
  no part for a variable, and is 1.
\<close>

datatype request =
    Malloc call_site size_t
  | Malloc_Align call_site size_t size_t
  | Free ptr
  | Free_Align ptr size_t

fun is_allocate :: "request \<Rightarrow> bool" where
  "is_allocate (Malloc here bytes) = True"
| "is_allocate (Malloc_Align here bytes align) = True"
| "is_allocate (Free p) = False"
| "is_allocate (Free_Align p align) = False"

definition holding :: "ptr \<Rightarrow> scope" where
  "holding p = [''ptr'' \<mapsto> Pointer_to_T p]"

fun perform :: "request \<Rightarrow> world \<Rightarrow> fault + ptr \<times> world" where
  "perform (Malloc here bytes) w = Inr (CC_MALLOC True here bytes w)"
| "perform (Malloc_Align here bytes align) w = Inr (CC_MALLOC_ALIGN True here bytes align w)"
| "perform (Free p) w =
     (case CC_FREE True 1 (Ident ''ptr'') (holding p) w of
        Inl f \<Rightarrow> Inl f | Inr w' \<Rightarrow> Inr (p, w'))"
| "perform (Free_Align p align) w =
     (case CC_FREE_ALIGN True 1 (Ident ''ptr'') align (holding p) w of
        Inl f \<Rightarrow> Inl f | Inr w' \<Rightarrow> Inr (p, w'))"

text \<open>A run stops at the first request that does not get to its end.\<close>

fun run :: "request list \<Rightarrow> world \<Rightarrow> fault + world" where
  "run [] w = Inr w"
| "run (r # rs) w = (case perform r w of Inl f \<Rightarrow> Inl f | Inr (p, w') \<Rightarrow> run rs w')"

text \<open>
  A release matches when its pointer has a live record and this record is of the same
  kind of allocation, plain or aligned.
\<close>

fun matches :: "request \<Rightarrow> world \<Rightarrow> bool" where
  "matches (Free p) w =
     (case map_of (records w) p of None \<Rightarrow> False | Some r \<Rightarrow> rec_align r = None)"
| "matches (Free_Align p align) w =
     (case map_of (records w) p of None \<Rightarrow> False | Some r \<Rightarrow> rec_align r \<noteq> None)"
| "matches r w = False"

text \<open>
  A run is well paired when every allocation succeeds with a pointer that has no live
  record (the backend does not hand out a block that is still allocated), and every
  release matches an allocation not yet released.
\<close>

fun well_paired :: "request list \<Rightarrow> world \<Rightarrow> bool" where
  "well_paired [] w = True"
| "well_paired (r # rs) w =
     (case perform r w of
        Inl f \<Rightarrow> False
      | Inr (p, w') \<Rightarrow>
          (if is_allocate r then p \<noteq> 0 \<and> p \<notin> fst ` set (records w) else matches r w)
          \<and> well_paired rs w')"

definition allocates :: "request list \<Rightarrow> nat" where
  "allocates rs = length (filter is_allocate rs)"

definition deallocates :: "request list \<Rightarrow> nat" where
  "deallocates rs = length (filter (\<lambda>r. \<not> is_allocate r) rs)"

definition live_records :: "world \<Rightarrow> nat" where
  "live_records w = length (records w)"

text \<open>The number of live records after a run, when the run gets to its end.\<close>

definition live_after :: "request list \<Rightarrow> world \<Rightarrow> nat option" where
  "live_after rs w = (case run rs w of Inl f \<Rightarrow> None | Inr w' \<Rightarrow> Some (live_records w'))"

definition table_ok :: "world \<Rightarrow> bool" where
  "table_ok w = (distinct (map fst (records w)) \<and> 0 \<notin> fst ` set (records w))"

subsection \<open>Worlds to run examples in\<close>

definition fresh_world :: "ptr list \<Rightarrow> world" where
  "fresh_world answers = \<lparr>log = [], platform = answers, origin = [], records = []\<rparr>"

definition example_site :: call_site where
  "example_site = \<lparr>site_file = ''Scene.cpp'', site_line = 42, site_function = ''Load''\<rparr>"

section \<open>Properties\<close>

lemmas exec_defs =
  CC_MALLOC_def CC_MALLOC_ALIGN_def AllocateBytes_def AllocateBytesAligned_def
  platform_answer_def track_def align_up_def power_of_two_def emit_def fresh_world_def

lemmas release_defs = DeallocateBytes_def DeallocateBytesAligned_def untrack_def emit_def

lemmas macro_defs =
  CC_FREE_def CC_FREE_ALIGN_def FREE_ALIGN_argument_def CC_DELETE_T_def CC_DELETE_ARRAY_T_def

subsection \<open>Array construction\<close>

text \<open>
  Started at \<open>i \<le> count\<close>, the loop of \<open>ConstructN\<close> appends one \<open>PlacementNew\<close> for
  each index from \<open>i\<close> up to \<open>count - 1\<close>, in this order, and changes nothing else.
\<close>

lemma ConstructN_loop_eq:
  "i \<le> count \<Longrightarrow> ConstructN_loop basePtr count i w =
     w\<lparr>log := log w @ map (\<lambda>k. PlacementNew basePtr (of_nat k)) [unat i..<unat count]\<rparr>"
proof (induction basePtr count i w rule: ConstructN_loop.induct)
  case (1 basePtr count i w)
  show ?case
  proof (cases "i < count")
    case True
    then have lt: "unat i < unat count" and suc: "unat (i + 1) = Suc (unat i)"
      and le: "i + 1 \<le> count"
      by unat_arith+
    have "ConstructN_loop basePtr count i w =
        ConstructN_loop basePtr count (i + 1) (emit (PlacementNew basePtr i) w)"
      using True by (subst ConstructN_loop.simps) simp
    also have "\<dots> = (emit (PlacementNew basePtr i) w)
        \<lparr>log := log (emit (PlacementNew basePtr i) w) @
           map (\<lambda>k. PlacementNew basePtr (of_nat k)) [unat (i + 1)..<unat count]\<rparr>"
      using "1.IH" [OF True le] .
    also have "\<dots> =
        w\<lparr>log := log w @ map (\<lambda>k. PlacementNew basePtr (of_nat k)) [unat i..<unat count]\<rparr>"
      using lt by (simp add: emit_def suc upt_conv_Cons)
    finally show ?thesis .
  next
    case False
    with "1.prems" have "i = count" by simp
    then show ?thesis by (subst ConstructN_loop.simps) simp
  qed
qed

text \<open>
  Claim C2. For every count and base pointer, \<open>ConstructN\<close> returns the base pointer
  unchanged and default-constructs exactly \<open>count\<close> elements, one at each index
  \<open>0 .. count - 1\<close> in ascending order (none when the count is zero); it does nothing
  else.
\<close>

theorem ConstructN_constructs_each_index_in_order:
  "ConstructN basePtr count w =
     (basePtr,
      w\<lparr>log := log w @ map (\<lambda>k. PlacementNew basePtr (of_nat k)) [0..<unat count]\<rparr>)"
  by (simp add: ConstructN_def ConstructN_loop_eq)

subsection \<open>Array destruction\<close>

text \<open>
  Claim C3 says that \<open>_CC_DELETE_ARRAY_T(ptr, T, N)\<close> calls exactly \<open>N\<close> destructors for
  every count. The macro (lines 81 and 138) pastes \<open>count\<close> without parentheses into
  \<open>b < (size_t)count\<close> and names its loop variable \<open>b\<close>, where the aligned variant next
  to it names it \<open>_b\<close> and the allocation macros write \<open>(count)\<close>. Two uses on an array
  at 4096, in a build without tracking:
  \<^item> the count is the caller's variable \<open>b\<close>, which holds 3: the condition is
    \<open>b < (size_t)b\<close> on the loop's own variable, no destructor runs, and the buffer is
    released;
  \<^item> the count is \<open>k & 3\<close> with \<open>k = 7\<close>, which is 3: the condition is
    \<open>(b < (size_t)k) & 3\<close>, and seven destructors run.
\<close>

theorem DELETE_ARRAY_T_miscounts_pasted_count:
  "CC_DELETE_ARRAY_T False 8 (Ident ''p'') (Ident ''b'')
     [''p'' \<mapsto> Pointer_to_T 4096, ''b'' \<mapsto> Integer 3] (fresh_world []) =
     Some (Inr ((fresh_world [])\<lparr>log := [Call_DeallocateBytes 4096]\<rparr>)) \<and>
   CC_DELETE_ARRAY_T False 8 (Ident ''p'') (Binary Bitand (Ident ''k'') (Literal 3))
     [''p'' \<mapsto> Pointer_to_T 4096, ''k'' \<mapsto> Integer 7] (fresh_world []) =
     Some (Inr ((fresh_world [])\<lparr>log :=
       [Destroy 4096 0, Destroy 4096 1, Destroy 4096 2, Destroy 4096 3, Destroy 4096 4,
        Destroy 4096 5, Destroy 4096 6, Call_DeallocateBytes 4096]\<rparr>))"
  by (simp add: macro_defs release_defs DELETE_ARRAY_loop.simps fresh_world_def)

text \<open>
  With a variable for the array and a variable for the count, neither of them named
  \<open>b\<close>, the macro does what its comment says: started at \<open>i\<close>, the loop calls the
  destructor at each index from \<open>i\<close> up to \<open>N - 1\<close> in this order, and the buffer is
  released after the last of them.
\<close>

lemma DELETE_ARRAY_loop_plain:
  assumes x: "x \<noteq> ''b''" "scope x = Some (Pointer_to_T p)"
    and n: "n \<noteq> ''b''" "scope n = Some (Integer N)"
  shows "i \<le> N \<Longrightarrow>
     DELETE_ARRAY_loop sizeof_T (Ident x) (Ident n) scope i w =
     Some (Inr (w\<lparr>log := log w @ map (\<lambda>k. Destroy p (of_nat k)) [unat i..<unat N]\<rparr>))"
proof (induction "unat N - unat i" arbitrary: i w)
  case 0
  then have "i = N" by unat_arith
  with n show ?case
    by (subst DELETE_ARRAY_loop.simps) simp
next
  case (Suc d)
  then have lt: "i < N" by unat_arith
  then have ulet: "unat i < unat N" and suc: "unat (i + 1) = Suc (unat i)" and le: "i + 1 \<le> N"
    by unat_arith+
  with Suc.hyps(2) have d: "d = unat N - unat (i + 1)" by simp
  have "DELETE_ARRAY_loop sizeof_T (Ident x) (Ident n) scope i w =
        DELETE_ARRAY_loop sizeof_T (Ident x) (Ident n) scope (i + 1) (emit (Destroy p i) w)"
    using lt x n by (subst DELETE_ARRAY_loop.simps) simp
  with Suc.hyps(1) [OF d le] ulet show ?case
    by (simp add: emit_def suc upt_conv_Cons)
qed

lemma DELETE_ARRAY_T_of_plain_arguments:
  assumes x: "x \<noteq> ''b''" "scope x = Some (Pointer_to_T p)" and nz: "p \<noteq> 0"
    and n: "n \<noteq> ''b''" "scope n = Some (Integer N)"
  shows "CC_DELETE_ARRAY_T tracker sizeof_T (Ident x) (Ident n) scope w =
     Some (DeallocateBytes tracker p
       (w\<lparr>log := log w @ map (\<lambda>k. Destroy p (of_nat k)) [0..<unat N]\<rparr>))"
  using x nz n DELETE_ARRAY_loop_plain [OF x n, of 0 sizeof_T w]
  by (simp add: CC_DELETE_ARRAY_T_def)

lemma DELETE_T_of_null:
  "value_of sizeof_T scope (Parens ptr) = Some (Pointer_to_T 0) \<Longrightarrow>
   CC_DELETE_T tracker sizeof_T ptr scope w \<noteq> Inl Ill_formed \<Longrightarrow>
   CC_DELETE_T tracker sizeof_T ptr scope w = Inr w"
  by (simp add: CC_DELETE_T_def split: option.splits)

lemma DELETE_ARRAY_T_of_null:
  "value_of sizeof_T scope (Parens ptr) = Some (Pointer_to_T 0) \<Longrightarrow>
   CC_DELETE_ARRAY_T tracker sizeof_T ptr count scope w \<noteq> Some (Inl Ill_formed) \<Longrightarrow>
   CC_DELETE_ARRAY_T tracker sizeof_T ptr count scope w = Some (Inr w)"
  by (simp add: CC_DELETE_ARRAY_T_def split: option.splits)

lemma DELETE_T_of_null_variable:
  "scope x = Some (Pointer_to_T 0) \<Longrightarrow> CC_DELETE_T tracker sizeof_T (Ident x) scope w = Inr w"
  by (simp add: CC_DELETE_T_def)

lemma DELETE_ARRAY_T_of_null_variable:
  "scope x = Some (Pointer_to_T 0) \<Longrightarrow> x \<noteq> ''b'' \<Longrightarrow>
   CC_DELETE_ARRAY_T tracker sizeof_T (Ident x) (Literal N) scope w = Some (Inr w)"
  by (simp add: CC_DELETE_ARRAY_T_def)

text \<open>
  Claim C9. With a pointer argument that is a null \<open>T*\<close>, \<open>_CC_DELETE_T\<close> and
  \<open>_CC_DELETE_ARRAY_T\<close> do nothing wherever they compile, in both builds and for every
  count: no destructor runs, \<open>DeallocateBytes\<close> is not called, and the state behind the
  policy is as before. On a variable that holds the null pointer they compile (for the
  array macro: a variable not named \<open>b\<close>, with a literal for the count).
\<close>

theorem delete_of_null_is_no_op:
  "(value_of sizeof_T scope (Parens ptr) = Some (Pointer_to_T 0) \<and>
    CC_DELETE_T tracker sizeof_T ptr scope w \<noteq> Inl Ill_formed \<longrightarrow>
      CC_DELETE_T tracker sizeof_T ptr scope w = Inr w) \<and>
   (value_of sizeof_T scope (Parens ptr) = Some (Pointer_to_T 0) \<and>
    CC_DELETE_ARRAY_T tracker sizeof_T ptr count scope w \<noteq> Some (Inl Ill_formed) \<longrightarrow>
      CC_DELETE_ARRAY_T tracker sizeof_T ptr count scope w = Some (Inr w)) \<and>
   (scope x = Some (Pointer_to_T 0) \<longrightarrow>
      CC_DELETE_T tracker sizeof_T (Ident x) scope w = Inr w) \<and>
   (scope x = Some (Pointer_to_T 0) \<and> x \<noteq> ''b'' \<longrightarrow>
      CC_DELETE_ARRAY_T tracker sizeof_T (Ident x) (Literal N) scope w = Some (Inr w))"
  using DELETE_T_of_null [of sizeof_T scope ptr tracker w]
    DELETE_ARRAY_T_of_null [of sizeof_T scope ptr tracker count w]
    DELETE_T_of_null_variable [of scope x tracker sizeof_T w]
    DELETE_ARRAY_T_of_null_variable [of scope x tracker sizeof_T N w]
  by blast

theorem delete_of_null_is_no_op_witness:
  "value_of 8 [''p'' \<mapsto> Pointer_to_T 0, ''n'' \<mapsto> Integer 3] (Parens (Ident ''p'')) =
     Some (Pointer_to_T 0) \<and>
   [''p'' \<mapsto> Pointer_to_T 0, ''n'' \<mapsto> Integer 3] ''p'' = Some (Pointer_to_T 0) \<and>
   ''p'' \<noteq> ''b'' \<and>
   CC_DELETE_T True 8 (Ident ''p'') [''p'' \<mapsto> Pointer_to_T 0, ''n'' \<mapsto> Integer 3]
     (fresh_world [4096]) = Inr (fresh_world [4096]) \<and>
   CC_DELETE_ARRAY_T True 8 (Ident ''p'') (Ident ''n'')
     [''p'' \<mapsto> Pointer_to_T 0, ''n'' \<mapsto> Integer 3] (fresh_world [4096]) =
     Some (Inr (fresh_world [4096])) \<and>
   CC_DELETE_ARRAY_T True 8 (Ident ''p'') (Literal 3)
     [''p'' \<mapsto> Pointer_to_T 0, ''n'' \<mapsto> Integer 3] (fresh_world [4096]) =
     Some (Inr (fresh_world [4096]))"
proof -
  have n: "value_of 8 [''p'' \<mapsto> Pointer_to_T 0, ''n'' \<mapsto> Integer 3] (Parens (Ident ''p'')) =
     Some (Pointer_to_T 0)"
    "[''p'' \<mapsto> Pointer_to_T 0, ''n'' \<mapsto> Integer 3] ''p'' = Some (Pointer_to_T 0)"
    "''p'' \<noteq> ''b''"
    by simp_all
  have c: "CC_DELETE_T True 8 (Ident ''p'') [''p'' \<mapsto> Pointer_to_T 0, ''n'' \<mapsto> Integer 3]
     (fresh_world [4096]) \<noteq> Inl Ill_formed"
    "CC_DELETE_ARRAY_T True 8 (Ident ''p'') (Ident ''n'')
     [''p'' \<mapsto> Pointer_to_T 0, ''n'' \<mapsto> Integer 3] (fresh_world [4096]) \<noteq>
     Some (Inl Ill_formed)"
    by (simp_all add: CC_DELETE_T_def CC_DELETE_ARRAY_T_def)
  from n c
    delete_of_null_is_no_op
      [where sizeof_T = 8 and scope = "[''p'' \<mapsto> Pointer_to_T 0, ''n'' \<mapsto> Integer 3]"
         and ptr = "Ident ''p''" and tracker = True and w = "fresh_world [4096]"
         and count = "Ident ''n''" and x = "''p''" and N = 3]
  show ?thesis by blast
qed

subsection \<open>Macros that only rename\<close>

text \<open>
  Claim C10. For every pointer argument and any two alignments, \<open>_CC_FREE_ALIGN\<close> makes
  the same call \<open>DeallocateBytesAligned(ptr)\<close> (in a build without tracking, of
  \<open>(void*)ptr\<close>): the alignment argument is dropped.
\<close>

theorem FREE_ALIGN_discards_alignment:
  "CC_FREE_ALIGN tracker sizeof_T ptr a1 scope w =
     (case FREE_ALIGN_argument tracker sizeof_T ptr scope of
        None \<Rightarrow> Inl Ill_formed
      | Some q \<Rightarrow> DeallocateBytesAligned tracker q w) \<and>
   CC_FREE_ALIGN tracker sizeof_T ptr a2 scope w =
     (case FREE_ALIGN_argument tracker sizeof_T ptr scope of
        None \<Rightarrow> Inl Ill_formed
      | Some q \<Rightarrow> DeallocateBytesAligned tracker q w) \<and>
   CC_FREE_ALIGN tracker sizeof_T ptr a1 scope w = CC_FREE_ALIGN tracker sizeof_T ptr a2 scope w"
  by (simp add: CC_FREE_ALIGN_def)

text \<open>
  Claim C8. In both builds, \<open>_CC_MALLOC_SIMD\<close>, \<open>_CC_ALLOC_T_SIMD\<close> and
  \<open>_CC_FREE_SIMD\<close> are \<open>_CC_MALLOC_ALIGN\<close>, \<open>_CC_ALLOC_T_ALIGN\<close> and \<open>_CC_FREE_ALIGN\<close>
  at the alignment \<open>CC_SIMD_ALIGNMENT\<close>, for every size, count and pointer argument.
\<close>

theorem SIMD_macros_are_ALIGN_macros:
  "CC_MALLOC_SIMD CC_SIMD_ALIGNMENT tracker here bytes w =
     CC_MALLOC_ALIGN tracker here bytes CC_SIMD_ALIGNMENT w \<and>
   CC_ALLOC_T_SIMD CC_SIMD_ALIGNMENT tracker here sizeof_T count w =
     CC_ALLOC_T_ALIGN tracker here sizeof_T count CC_SIMD_ALIGNMENT w \<and>
   CC_FREE_SIMD CC_SIMD_ALIGNMENT tracker sizeof_T ptr scope w =
     CC_FREE_ALIGN tracker sizeof_T ptr CC_SIMD_ALIGNMENT scope w"
  by (simp add: CC_MALLOC_SIMD_def CC_ALLOC_T_SIMD_def CC_FREE_SIMD_def)

text \<open>
  Claim C6. Both shortcuts, \<open>GAP\<close> and \<open>STLAP\<close>, are the one class
  \<open>CategorisedAllocPolicy\<close> that the build configuration selects: whichever shortcut a
  request goes through, the same backend policy handles it.
\<close>

theorem shortcuts_resolve_to_CategorisedAllocPolicy:
  "shortcut_policy s n j a c = CategorisedAllocPolicy s n j a \<and>
   shortcut_policy s n j a c = shortcut_policy s n j a c'"
  by (cases c; cases c') simp_all

subsection \<open>Aligned allocation\<close>

lemma round_up_nat: "0 < a \<Longrightarrow> (r + (a - r mod a)) mod a = (0::nat)"
proof -
  assume a: "0 < a"
  then have "r mod a \<le> a" by (simp add: less_imp_le)
  then have "r + (a - r mod a) = (r - r mod a) + a"
    by simp
  also have "r - r mod a = (r div a) * a"
    by (simp add: minus_mod_eq_div_mult)
  finally show ?thesis by simp
qed

text \<open>
  The addition in \<open>align_up\<close> may wrap around; the result is a multiple of the alignment
  all the same when the alignment divides \<open>2 ^ 64\<close>.
\<close>

lemma align_up_aligned:
  assumes "a \<noteq> 0" and "unat a dvd 2 ^ 64"
  shows "unat (align_up raw a) mod unat a = 0"
proof -
  from assms(1) have pos: "0 < a" and upos: "0 < unat a"
    by (simp_all add: word_neq_0_conv unat_gt_0)
  then have "raw mod a < a"
    by (simp add: word_mod_less_divisor)
  then have "raw mod a \<le> a" by simp
  then have sub: "unat (a - raw mod a) = unat a - unat raw mod unat a"
    by (simp add: unat_sub unat_mod)
  have "unat (align_up raw a) = (unat raw + (unat a - unat raw mod unat a)) mod 2 ^ 64"
    by (simp add: align_up_def unat_word_ariths sub)
  then have "unat (align_up raw a) mod unat a =
      (unat raw + (unat a - unat raw mod unat a)) mod unat a"
    using assms(2) by (simp add: mod_mod_cancel)
  with round_up_nat [OF upos, of "unat raw"] show ?thesis by simp
qed

lemma fst_AllocateBytesAligned:
  "fst (AllocateBytesAligned align bytes site w) = 0 \<or>
   fst (AllocateBytesAligned align bytes site w) = align_up (hd (platform w)) align"
  by (auto simp: AllocateBytesAligned_def platform_answer_def emit_def Let_def
      split: list.splits)

text \<open>
  Claim C1. For every size \<open>s > 0\<close> and every alignment \<open>a\<close> among 1, 4, 8, 16 and 32,
  the pointer that \<open>_CC_MALLOC_ALIGN\<close> returns (that is, the pointer that
  \<open>AllocateBytesAligned\<close> returns, in either build) is a multiple of \<open>a\<close>.
\<close>

theorem MALLOC_ALIGN_returns_aligned_pointer:
  "0 < s \<Longrightarrow> a \<in> {1, 4, 8, 16, 32} \<Longrightarrow>
   unat (fst (CC_MALLOC_ALIGN tracker here s a w)) mod unat a = 0"
proof -
  assume "a \<in> {1, 4, 8, 16, 32}"
  then have a: "a \<noteq> 0" "unat a dvd 2 ^ 64" by auto
  have "\<And>site. unat (fst (AllocateBytesAligned a s site w)) mod unat a = 0"
    using fst_AllocateBytesAligned [of a s _ w] align_up_aligned [OF a]
    by (metis mod_0 unat_0)
  then show ?thesis by (simp add: CC_MALLOC_ALIGN_def)
qed

theorem MALLOC_ALIGN_returns_aligned_pointer_witness:
  "(0 :: size_t) < 24 \<and> (16 :: size_t) \<in> {1, 4, 8, 16, 32} \<and>
   fst (CC_MALLOC_ALIGN False example_site 24 16 (fresh_world [4104])) = 4112 \<and>
   unat (fst (CC_MALLOC_ALIGN False example_site 24 16 (fresh_world [4104])))
     mod unat (16 :: size_t) = 0"
  using MALLOC_ALIGN_returns_aligned_pointer [of 24 16 False example_site "fresh_world [4104]"]
  by (simp add: exec_defs)

subsection \<open>The release macros and the origin of a pointer\<close>

lemma CC_FREE_variable:
  "scope x = Some (Pointer_to_T p) \<Longrightarrow>
   CC_FREE tracker sizeof_T (Ident x) scope w = DeallocateBytes tracker p w"
  by (simp add: CC_FREE_def)

lemma CC_FREE_ALIGN_variable:
  "scope x = Some (Pointer_to_T p) \<Longrightarrow>
   CC_FREE_ALIGN tracker sizeof_T (Ident x) align scope w = DeallocateBytesAligned tracker p w"
  by (simp add: CC_FREE_ALIGN_def FREE_ALIGN_argument_def)

text \<open>
  The record that the tracking holds for a pointer just allocated tells the kind of the
  allocation.
\<close>

lemma record_of_AllocateBytes:
  assumes "AllocateBytes bytes (Some here) w0 = (p, w)" and "p \<noteq> 0"
  shows "map_of (records w) p = Some \<lparr>rec_size = bytes, rec_align = None, rec_site = here\<rparr>"
  using assms
  by (auto simp: AllocateBytes_def platform_answer_def track_def emit_def AList.update_conv'
      split: list.splits if_splits)

lemma record_of_AllocateBytesAligned:
  assumes "AllocateBytesAligned align bytes (Some here) w0 = (p, w)" and "p \<noteq> 0"
  shows "map_of (records w) p = Some \<lparr>rec_size = bytes, rec_align = Some align, rec_site = here\<rparr>"
  using assms
  by (auto simp: AllocateBytesAligned_def platform_answer_def track_def emit_def Let_def
      AList.update_conv' split: list.splits if_splits)

text \<open>
  Claim C5 says that a pointer from the aligned path has a type of its own, so that its
  release through the unaligned \<open>_CC_FREE\<close> is rejected by construction. The header has
  one pointer type for both paths, and in a build without tracking the run below gets
  to its end: 24 bytes are allocated at alignment 16, the pointer 4112 comes back, and
  \<open>_CC_FREE\<close> on a variable that holds it passes it to \<open>DeallocateBytes\<close>; the block at
  4104 is never recovered.
\<close>

theorem aligned_pointer_accepted_by_unaligned_free:
  "fst (CC_MALLOC_ALIGN False example_site 24 16 (fresh_world [4104])) = 4112 \<and>
   CC_FREE False 8 (Ident ''p'') [''p'' \<mapsto> Pointer_to_T 4112]
     (snd (CC_MALLOC_ALIGN False example_site 24 16 (fresh_world [4104]))) =
   Inr \<lparr>log = [Call_AllocateBytesAligned 16 24 None, Call_DeallocateBytes 4112],
        platform = [], origin = [(4112, 4104)], records = []\<rparr>"
  by (simp add: exec_defs CC_FREE_def release_defs)

text \<open>
  Claim C5, as the header has it. The two paths return pointers of the same type, and
  the expansion of a release macro on a variable that holds a pointer of the other path
  compiles: nothing rejects the mismatch by construction. In a build without tracking
  \<open>_CC_FREE\<close> calls \<open>DeallocateBytes\<close> on a pointer that \<open>_CC_MALLOC_ALIGN\<close> returned, and
  \<open>_CC_FREE_ALIGN\<close> calls \<open>DeallocateBytesAligned\<close> on one that \<open>_CC_MALLOC\<close> returned,
  and both get to their end. In a build with tracking the same call is made, and the
  tracking, which reads the kind of allocation in the record of the pointer, fails
  loudly at run time.
\<close>

theorem mismatched_release_is_not_rejected_by_type:
  assumes "scope x = Some (Pointer_to_T p)" and "p \<noteq> 0"
  shows "(CC_MALLOC_ALIGN tracker here bytes align w0 = (p, w) \<longrightarrow>
            CC_FREE tracker sizeof_T (Ident x) scope w =
              (if tracker then Inl (Release_of_other_class p)
               else Inr (emit (Call_DeallocateBytes p) w))) \<and>
         (CC_MALLOC tracker here bytes w0 = (p, w) \<longrightarrow>
            CC_FREE_ALIGN tracker sizeof_T (Ident x) align scope w =
              (if tracker then Inl (Release_of_other_class p)
               else Inr ((emit (Call_DeallocateBytesAligned p) w)
                           \<lparr>origin := AList.delete p (origin w)\<rparr>)))"
proof (intro conjI impI)
  assume a: "CC_MALLOC_ALIGN tracker here bytes align w0 = (p, w)"
  show "CC_FREE tracker sizeof_T (Ident x) scope w =
          (if tracker then Inl (Release_of_other_class p)
           else Inr (emit (Call_DeallocateBytes p) w))"
  proof (cases tracker)
    case True
    with a have "AllocateBytesAligned align bytes (Some here) w0 = (p, w)"
      by (simp add: CC_MALLOC_ALIGN_def)
    from record_of_AllocateBytesAligned [OF this assms(2)] assms True show ?thesis
      by (simp add: CC_FREE_variable release_defs)
  next
    case False
    with assms show ?thesis
      by (simp add: CC_FREE_variable release_defs)
  qed
next
  assume a: "CC_MALLOC tracker here bytes w0 = (p, w)"
  show "CC_FREE_ALIGN tracker sizeof_T (Ident x) align scope w =
          (if tracker then Inl (Release_of_other_class p)
           else Inr ((emit (Call_DeallocateBytesAligned p) w)
                       \<lparr>origin := AList.delete p (origin w)\<rparr>))"
  proof (cases tracker)
    case True
    with a have "AllocateBytes bytes (Some here) w0 = (p, w)"
      by (simp add: CC_MALLOC_def)
    from record_of_AllocateBytes [OF this assms(2)] assms True show ?thesis
      by (simp add: CC_FREE_ALIGN_variable release_defs)
  next
    case False
    with assms show ?thesis
      by (simp add: CC_FREE_ALIGN_variable release_defs)
  qed
qed

theorem mismatched_release_is_not_rejected_by_type_witness:
  "[''p'' \<mapsto> Pointer_to_T 4112] ''p'' = Some (Pointer_to_T 4112) \<and> (4112 :: ptr) \<noteq> 0 \<and>
   CC_MALLOC_ALIGN True example_site 24 16 (fresh_world [4104]) =
     (4112, \<lparr>log = [Call_AllocateBytesAligned 16 24 (Some example_site)], platform = [],
             origin = [(4112, 4104)],
             records = [(4112, \<lparr>rec_size = 24, rec_align = Some 16, rec_site = example_site\<rparr>)]\<rparr>) \<and>
   CC_FREE True 8 (Ident ''p'') [''p'' \<mapsto> Pointer_to_T 4112]
     \<lparr>log = [Call_AllocateBytesAligned 16 24 (Some example_site)], platform = [],
      origin = [(4112, 4104)],
      records = [(4112, \<lparr>rec_size = 24, rec_align = Some 16, rec_site = example_site\<rparr>)]\<rparr> =
     Inl (Release_of_other_class 4112) \<and>
   CC_MALLOC True example_site 24 (fresh_world [4112]) =
     (4112, \<lparr>log = [Call_AllocateBytes 24 (Some example_site)], platform = [], origin = [],
             records = [(4112, \<lparr>rec_size = 24, rec_align = None, rec_site = example_site\<rparr>)]\<rparr>) \<and>
   CC_FREE_ALIGN True 8 (Ident ''p'') 16 [''p'' \<mapsto> Pointer_to_T 4112]
     \<lparr>log = [Call_AllocateBytes 24 (Some example_site)], platform = [], origin = [],
      records = [(4112, \<lparr>rec_size = 24, rec_align = None, rec_site = example_site\<rparr>)]\<rparr> =
     Inl (Release_of_other_class 4112)"
proof -
  have s: "[''p'' \<mapsto> Pointer_to_T 4112] ''p'' = Some (Pointer_to_T 4112)" "(4112 :: ptr) \<noteq> 0"
    by simp_all
  have a: "CC_MALLOC_ALIGN True example_site 24 16 (fresh_world [4104]) =
     (4112, \<lparr>log = [Call_AllocateBytesAligned 16 24 (Some example_site)], platform = [],
             origin = [(4112, 4104)],
             records = [(4112, \<lparr>rec_size = 24, rec_align = Some 16, rec_site = example_site\<rparr>)]\<rparr>)"
    "CC_MALLOC True example_site 24 (fresh_world [4112]) =
     (4112, \<lparr>log = [Call_AllocateBytes 24 (Some example_site)], platform = [], origin = [],
             records = [(4112, \<lparr>rec_size = 24, rec_align = None, rec_site = example_site\<rparr>)]\<rparr>)"
    by (simp_all add: exec_defs emit_def)
  from s a
    mismatched_release_is_not_rejected_by_type
      [where scope = "[''p'' \<mapsto> Pointer_to_T 4112]" and x = "''p''" and p = 4112
         and tracker = True and here = example_site and bytes = 24 and align = 16
         and ?w0.0 = "fresh_world [4104]" and sizeof_T = 8]
    mismatched_release_is_not_rejected_by_type
      [where scope = "[''p'' \<mapsto> Pointer_to_T 4112]" and x = "''p''" and p = 4112
         and tracker = True and here = example_site and bytes = 24 and align = 16
         and ?w0.0 = "fresh_world [4112]" and sizeof_T = 8]
  show ?thesis by simp
qed

subsection \<open>The build with tracking against the build without\<close>


lemma same_backend_records [simp]:
  "same_backend (w\<lparr>records := t\<rparr>) w' = same_backend w w'"
  "same_backend w (w'\<lparr>records := t\<rparr>) = same_backend w w'"
  by (simp_all add: same_backend_def)

lemma same_backend_track [simp]:
  "same_backend (track p bytes align site w) w' = same_backend w w'"
  "same_backend w (track p bytes align site w') = same_backend w w'"
  by (simp_all add: track_def split: option.splits)



















text \<open>
  For other pointer arguments of \<open>_CC_FREE_ALIGN\<close> the two branches of the header differ:
  line 89 passes \<open>ptr\<close> and line 146 passes \<open>(void*)ptr\<close>. With \<open>q + 1\<close> for a \<open>T*\<close> at
  4096 and elements of 8 bytes, the build with tracking releases 4104 and the build
  without releases 4097.
\<close>

lemma FREE_ALIGN_of_a_sum_differs_between_builds:
  "CC_FREE_ALIGN True 8 (Binary Plus (Ident ''q'') (Literal 1)) 16
     [''q'' \<mapsto> Pointer_to_T 4096]
     \<lparr>log = [], platform = [], origin = [],
      records = [(4104, \<lparr>rec_size = 8, rec_align = Some 16, rec_site = example_site\<rparr>)]\<rparr> =
     Inr \<lparr>log = [Call_DeallocateBytesAligned 4104], platform = [], origin = [], records = []\<rparr> \<and>
   CC_FREE_ALIGN False 8 (Binary Plus (Ident ''q'') (Literal 1)) 16
     [''q'' \<mapsto> Pointer_to_T 4096] (fresh_world []) =
     Inr \<lparr>log = [Call_DeallocateBytesAligned 4097], platform = [], origin = [], records = []\<rparr>"
  by (simp add: CC_FREE_ALIGN_def FREE_ALIGN_argument_def release_defs fresh_world_def)

subsection \<open>The number of live records\<close>

lemma length_update_fresh:
  "p \<notin> fst ` set al \<Longrightarrow> length (AList.update p v al) = Suc (length al)"
  by (induction al) auto

lemma delete_absent: "p \<notin> fst ` set al \<Longrightarrow> AList.delete p al = al"
  by (induction al) auto

lemma length_delete_live:
  "distinct (map fst al) \<Longrightarrow> p \<in> fst ` set al \<Longrightarrow>
   Suc (length (AList.delete p al)) = length al"
proof (induction al)
  case Nil
  then show ?case by simp
next
  case (Cons x al)
  show ?case
  proof (cases "fst x = p")
    case True
    with Cons.prems(1) have "p \<notin> fst ` set al" by auto
    with True show ?thesis by (simp add: delete_absent)
  next
    case False
    with Cons show ?thesis by auto
  qed
qed

lemma records_emit [simp]: "records (emit e w) = records w"
  by (simp add: emit_def)

lemma records_perform_allocate:
  assumes "is_allocate r" and "perform r w = Inr (p, w')" and "p \<noteq> 0"
  shows "\<exists>v. records w' = AList.update p v (records w)"
  using assms
  by (cases r)
     (auto simp: CC_MALLOC_def CC_MALLOC_ALIGN_def AllocateBytes_def AllocateBytesAligned_def
        platform_answer_def track_def Let_def split: list.splits if_splits)

lemma matches_live:
  assumes "matches r w"
  shows "\<not> is_allocate r" and "\<exists>p. (r = Free p \<or> (\<exists>a. r = Free_Align p a)) \<and> p \<in> fst ` set (records w)"
  using assms
  by (cases r; auto split: option.splits dest!: map_of_SomeD intro: rev_image_eqI)+

lemma records_perform_deallocate:
  assumes "matches r w" and "table_ok w" and "perform r w = Inr (p, w')"
  shows "records w' = AList.delete p (records w) \<and> p \<in> fst ` set (records w)"
proof -
  from matches_live(2) [OF assms(1)] obtain q
    where q: "r = Free q \<or> (\<exists>a. r = Free_Align q a)" "q \<in> fst ` set (records w)"
    by blast
  with assms(2) have nz: "q \<noteq> 0" unfolding table_ok_def by metis
  from q(1) show ?thesis
  proof
    assume r: "r = Free q"
    with assms(1,3) nz q(2) show ?thesis
      by (auto simp: holding_def CC_FREE_def DeallocateBytes_def untrack_def Let_def
          split: option.splits if_splits sum.splits)
  next
    assume "\<exists>a. r = Free_Align q a"
    then obtain a where r: "r = Free_Align q a" ..
    with assms(1,3) q(2) show ?thesis
      by (auto simp: holding_def CC_FREE_ALIGN_def FREE_ALIGN_argument_def
          DeallocateBytesAligned_def untrack_def
          Let_def split: option.splits if_splits sum.splits)
  qed
qed

lemma table_ok_update:
  "table_ok w \<Longrightarrow> p \<noteq> 0 \<Longrightarrow> records w' = AList.update p v (records w) \<Longrightarrow> table_ok w'"
  by (auto simp: table_ok_def AList.distinct_update AList.dom_update)

lemma table_ok_delete:
  "table_ok w \<Longrightarrow> records w' = AList.delete p (records w) \<Longrightarrow> table_ok w'"
  using AList.dom_delete_subset [of p "records w"]
  by (auto simp: table_ok_def AList.distinct_delete)

lemma table_ok_empty: "records w = [] \<Longrightarrow> table_ok w"
  by (simp add: table_ok_def)

text \<open>
One request of a well paired run: an allocation adds a record, a release removes one.
\<close>

lemma perform_step:
  assumes ok: "table_ok w"
    and fin: "perform r w = Inr (p, w')"
    and live: "if is_allocate r then p \<noteq> 0 \<and> p \<notin> fst ` set (records w) else matches r w"
  shows "table_ok w' \<and>
         live_records w' + (if is_allocate r then 0 else 1) =
         live_records w + (if is_allocate r then 1 else 0)"
proof (cases "is_allocate r")
  case True
  with live have nz: "p \<noteq> 0" and fresh: "p \<notin> fst ` set (records w)"
    by simp_all
  from records_perform_allocate [OF True fin nz] obtain v
    where v: "records w' = AList.update p v (records w)" ..
  from table_ok_update [OF ok nz v] v fresh True show ?thesis
    by (simp add: live_records_def length_update_fresh)
next
  case False
  with live have m: "matches r w" by simp
  from records_perform_deallocate [OF m ok fin]
  have d: "records w' = AList.delete p (records w)" and inn: "p \<in> fst ` set (records w)"
    by simp_all
  from ok have "distinct (map fst (records w))" by (simp add: table_ok_def)
  from length_delete_live [OF this inn] table_ok_delete [OF ok d] d False show ?thesis
    by (simp add: live_records_def)
qed

lemma well_paired_count:
  "table_ok w \<Longrightarrow> well_paired rs w \<Longrightarrow>
   \<exists>w'. run rs w = Inr w' \<and> table_ok w' \<and>
        live_records w' + deallocates rs = live_records w + allocates rs"
proof (induction rs arbitrary: w)
  case Nil
  then show ?case by (simp add: allocates_def deallocates_def)
next
  case (Cons r rs)
  from Cons.prems(2) obtain p w1 where
    fin: "perform r w = Inr (p, w1)"
    and live: "if is_allocate r then p \<noteq> 0 \<and> p \<notin> fst ` set (records w) else matches r w"
    and rest: "well_paired rs w1"
    by (auto split: sum.splits if_splits)
  from perform_step [OF Cons.prems(1) fin live] have
    ok': "table_ok w1" and
    cnt: "live_records w1 + (if is_allocate r then 0 else 1) =
          live_records w + (if is_allocate r then 1 else 0)"
    by simp_all
  from Cons.IH [OF ok' rest] obtain w' where
    "run rs w1 = Inr w'" "table_ok w'"
    "live_records w' + deallocates rs = live_records w1 + allocates rs"
    by blast
  with cnt fin show ?case
    by (simp add: allocates_def deallocates_def split: if_splits)
qed

lemma run_append:
  "run (rs @ fs) w = (case run rs w of Inl f \<Rightarrow> Inl f | Inr w' \<Rightarrow> run fs w')"
  by (induction rs arbitrary: w) (simp_all split: sum.splits prod.splits)

lemma well_paired_append:
  "well_paired (rs @ fs) w =
     (well_paired rs w \<and> (case run rs w of Inl f \<Rightarrow> True | Inr w' \<Rightarrow> well_paired fs w'))"
proof (induction rs arbitrary: w)
  case Nil
  show ?case by simp
next
  case (Cons r rs)
  show ?case
  proof (cases "perform r w")
    case (Inl f)
    then show ?thesis by simp
  next
    case (Inr pw)
    obtain p w1 where "pw = (p, w1)" by (cases pw)
    with Inr Cons.IH [of w1] show ?thesis by (simp add: conj_ac)
  qed
qed

lemma deallocates_all: "allocates fs = 0 \<Longrightarrow> deallocates fs = length fs"
  by (induction fs) (auto simp: allocates_def deallocates_def split: if_splits)

text \<open>
  Claim C7. In a build with tracking, start with no record and take a well paired run
  \<open>rs\<close> in which \<open>k\<close> allocations have no matching release (its allocations are \<open>k\<close>
  more than its releases): the run gets to its end, and after it the table has exactly
  \<open>k\<close> records. After the \<open>k\<close> matching releases \<open>fs\<close> the table has none.
\<close>

theorem tracking_live_record_count:
  assumes "records w = []" and "well_paired (rs @ fs) w"
    and "allocates rs = deallocates rs + k" and "allocates fs = 0" and "length fs = k"
  shows "live_after rs w = Some k \<and> live_after (rs @ fs) w = Some 0"
proof -
  from assms(1) have ok: "table_ok w" and empty: "live_records w = 0"
    by (simp_all add: table_ok_empty live_records_def)
  from assms(2) have wp: "well_paired rs w" by (simp add: well_paired_append)
  from well_paired_count [OF ok wp] obtain w1 where
    r1: "run rs w = Inr w1" and ok1: "table_ok w1"
    and "live_records w1 + deallocates rs = live_records w + allocates rs"
    by blast
  with empty assms(3) have first: "live_records w1 = k" by simp
  from assms(2) r1 have "well_paired fs w1" by (simp add: well_paired_append)
  from well_paired_count [OF ok1 this] obtain w2 where
    r2: "run fs w1 = Inr w2"
    and "live_records w2 + deallocates fs = live_records w1 + allocates fs"
    by blast
  with first assms(4,5) have "live_records w2 = 0"
    by (simp add: deallocates_all)
  with first r1 r2 show ?thesis
    by (simp add: live_after_def run_append)
qed

theorem tracking_live_record_count_witness:
  "records (fresh_world [4096, 4104, 8192]) = [] \<and>
   well_paired ([Malloc example_site 8, Malloc_Align example_site 24 16, Free 4096,
                 Malloc example_site 32] @ [Free_Align 4112 16, Free 8192])
     (fresh_world [4096, 4104, 8192]) \<and>
   allocates [Malloc example_site 8, Malloc_Align example_site 24 16, Free 4096,
              Malloc example_site 32] =
   deallocates [Malloc example_site 8, Malloc_Align example_site 24 16, Free 4096,
              Malloc example_site 32] + 2 \<and>
   allocates [Free_Align 4112 16, Free 8192] = 0 \<and>
   length [Free_Align 4112 16, Free 8192] = 2 \<and>
   live_after [Malloc example_site 8, Malloc_Align example_site 24 16, Free 4096,
               Malloc example_site 32] (fresh_world [4096, 4104, 8192]) = Some 2 \<and>
   live_after ([Malloc example_site 8, Malloc_Align example_site 24 16, Free 4096,
                Malloc example_site 32] @ [Free_Align 4112 16, Free 8192])
              (fresh_world [4096, 4104, 8192]) = Some 0"
proof -
  have wp: "well_paired ([Malloc example_site 8, Malloc_Align example_site 24 16, Free 4096,
                 Malloc example_site 32] @ [Free_Align 4112 16, Free 8192])
     (fresh_world [4096, 4104, 8192])"
    by (simp add: exec_defs macro_defs release_defs holding_def)
  have e: "records (fresh_world [4096, 4104, 8192]) = []"
    by (simp add: fresh_world_def)
  have c: "allocates [Malloc example_site 8, Malloc_Align example_site 24 16, Free 4096,
              Malloc example_site 32] =
   deallocates [Malloc example_site 8, Malloc_Align example_site 24 16, Free 4096,
              Malloc example_site 32] + 2"
    "allocates [Free_Align 4112 16, Free 8192] = 0"
    "length [Free_Align 4112 16, Free 8192] = 2"
    by (simp_all add: allocates_def deallocates_def)
  from tracking_live_record_count [OF e wp c] e wp c show ?thesis by simp
qed

end
